theory Spec2Isabelle
  imports Main
begin

section \<open>JavaScript values\<close>

text \<open>
  The backend is JavaScript. The values that flow through the modelled code are
  strings, booleans, numbers, \<^verbatim>\<open>undefined\<close>, plain objects and (through inherited
  properties) functions. A decimal literal such as \<^verbatim>\<open>7.5\<close> is kept as mantissa
  and number of decimal digits (\<open>JDec 75 1\<close>), so no floating point is involved.
\<close>

datatype jsval =
    JUndefined
  | JBool bool
  | JNum int
  | JDec int nat
  | JStr string
  | JFun string
  | JObj "(string \<times> jsval) list"

text \<open>JavaScript truthiness, as used by \<^verbatim>\<open>||\<close>, \<^verbatim>\<open>&&\<close>, \<^verbatim>\<open>!\<close> and \<^verbatim>\<open>if\<close>.\<close>

fun truthy :: "jsval \<Rightarrow> bool" where
  "truthy JUndefined = False"
| "truthy (JBool b) = b"
| "truthy (JNum n) = (n \<noteq> 0)"
| "truthy (JDec m d) = (m \<noteq> 0)"
| "truthy (JStr s) = (s \<noteq> [])"
| "truthy (JFun f) = True"
| "truthy (JObj ps) = True"

text \<open>
  An environment variable or an optional string field is \<^verbatim>\<open>undefined\<close> (\<open>None\<close>)
  or a string; it is truthy when it is a non-empty string.
\<close>

definition js_of :: "string option \<Rightarrow> jsval" where
  "js_of v = (case v of None \<Rightarrow> JUndefined | Some s \<Rightarrow> JStr s)"

definition truthy_str :: "string option \<Rightarrow> bool" where
  "truthy_str v = truthy (js_of v)"

text \<open>\<^verbatim>\<open>a || b\<close> on an optional string and a default string.\<close>

definition or_default :: "string option \<Rightarrow> string \<Rightarrow> string" where
  "or_default v d = (case v of None \<Rightarrow> d | Some s \<Rightarrow> if s \<noteq> [] then s else d)"

text \<open>
  Property lookup \<^verbatim>\<open>obj[key]\<close> on an object literal: the own properties first,
  then the properties every object literal inherits from \<^verbatim>\<open>Object.prototype\<close>,
  then \<^verbatim>\<open>undefined\<close>. The inherited properties are functions, except the
  accessor \<^verbatim>\<open>__proto__\<close>, which yields the prototype object itself.
\<close>

definition object_prototype :: "(string \<times> jsval) list" where
  "object_prototype =
    [(''constructor'', JFun ''Object''),
     (''__defineGetter__'', JFun ''__defineGetter__''),
     (''__defineSetter__'', JFun ''__defineSetter__''),
     (''hasOwnProperty'', JFun ''hasOwnProperty''),
     (''__lookupGetter__'', JFun ''__lookupGetter__''),
     (''__lookupSetter__'', JFun ''__lookupSetter__''),
     (''isPrototypeOf'', JFun ''isPrototypeOf''),
     (''propertyIsEnumerable'', JFun ''propertyIsEnumerable''),
     (''toString'', JFun ''toString''),
     (''valueOf'', JFun ''valueOf''),
     (''__proto__'', JObj []),
     (''toLocaleString'', JFun ''toLocaleString'')]"

definition get_property :: "(string \<times> jsval) list \<Rightarrow> string \<Rightarrow> jsval" where
  "get_property own k =
    (case map_of own k of
       Some v \<Rightarrow> v
     | None \<Rightarrow> (case map_of object_prototype k of Some v \<Rightarrow> v | None \<Rightarrow> JUndefined))"

text \<open>\<^verbatim>\<open>String.prototype.includes\<close> and \<^verbatim>\<open>replace\<close> with a one-character pattern
  (which replaces the first occurrence only).\<close>

fun startsWith :: "string \<Rightarrow> string \<Rightarrow> bool" where
  "startsWith s [] = True"
| "startsWith [] (p # ps) = False"
| "startsWith (c # cs) (p # ps) = (c = p \<and> startsWith cs ps)"

fun str_includes :: "string \<Rightarrow> string \<Rightarrow> bool" where
  "str_includes [] pat = (pat = [])"
| "str_includes (c # cs) pat = (startsWith (c # cs) pat \<or> str_includes cs pat)"

fun replace_first :: "char \<Rightarrow> char \<Rightarrow> string \<Rightarrow> string" where
  "replace_first a b [] = []"
| "replace_first a b (c # cs) = (if c = a then b # cs else c # replace_first a b cs)"


section \<open>The prompt table\<close>

definition baby_blur_prompt :: string where
  "baby_blur_prompt = ''A candid iPhone selfie photo showing a complete family of three people: two parents with their small child around 4 years old. All three faces clearly visible, smiling naturally. Portrait orientation, photorealistic quality.''"

definition avatar_prompt :: string where
  "avatar_prompt = ''A high-quality 3D Pixar-style avatar character based on the person in the photo. Cute, stylized, colorful, professional digital art style. Clean background, front-facing view, vibrant colors, Disney/Pixar animation quality.''"

definition age_progression_prompt :: string where
  "age_progression_prompt = ''A photorealistic portrait showing the same person aged 20 years older. Natural aging process, realistic wrinkles, mature features, same facial structure and characteristics, professional portrait photography quality.''"

definition age_regression_prompt :: string where
  "age_regression_prompt = ''A photorealistic portrait showing the same person as a young child around 8 years old. Maintain same facial features and characteristics, innocent child-like expression, soft lighting, portrait photography quality.''"

definition pet_generator_prompt :: string where
  "pet_generator_prompt = ''A cute, friendly dog that would perfectly match the personality of the person in the photo. The dog should have similar facial expressions and personality traits. High-quality pet photography, adorable, heartwarming.''"

definition couple_generator_prompt :: string where
  "couple_generator_prompt = ''A photorealistic portrait of an attractive person who would be the perfect romantic partner match for the person in the photo. Complementary features, similar age, attractive, warm smile, professional portrait photography.''"

definition style_anime_prompt :: string where
  "style_anime_prompt = ''Transform the person into a beautiful high-quality anime character. Japanese anime art style, detailed, vibrant colors, expressive eyes, professional anime illustration quality.''"

definition style_painting_prompt :: string where
  "style_painting_prompt = ''Transform the person into a classical oil painting portrait. Renaissance painting style, masterpiece quality, rich colors, artistic brushwork, museum-quality classical art.''"

definition style_cartoon_prompt :: string where
  "style_cartoon_prompt = ''Transform the person into a fun cartoon character. Colorful, exaggerated features, friendly expression, professional cartoon illustration style, vibrant and playful.''"

definition prompts :: "(string \<times> jsval) list" where
  "prompts =
    [(''baby_blur'', JStr baby_blur_prompt),
     (''avatar'', JStr avatar_prompt),
     (''age_progression'', JStr age_progression_prompt),
     (''age_regression'', JStr age_regression_prompt),
     (''pet_generator'', JStr pet_generator_prompt),
     (''couple_generator'', JStr couple_generator_prompt),
     (''style_anime'', JStr style_anime_prompt),
     (''style_painting'', JStr style_painting_prompt),
     (''style_cartoon'', JStr style_cartoon_prompt)]"

text \<open>
  \<^verbatim>\<open>generatePrompt(transformationType, imageCount = 1)\<close> returns
  \<^verbatim>\<open>prompts[transformationType] || prompts['avatar']\<close>; the image count is not used.
\<close>

definition generatePrompt :: "string \<Rightarrow> nat \<Rightarrow> jsval" where
  "generatePrompt transformationType imageCount =
    (if truthy (get_property prompts transformationType)
     then get_property prompts transformationType
     else get_property prompts ''avatar'')"

definition transformation_ids :: "string list" where
  "transformation_ids =
    [''baby_blur'', ''avatar'', ''age_progression'', ''age_regression'', ''pet_generator'',
     ''couple_generator'', ''style_anime'', ''style_painting'', ''style_cartoon'']"


section \<open>Requests, errors, responses and the world outside\<close>

text \<open>An uploaded file as the multipart middleware hands it to the controller.\<close>

record uploaded_file =
  path :: string
  filename :: string
  originalname :: "string option"
  mimetype :: "string option"
  fsize :: nat

text \<open>
  The request as the controller sees it: \<^verbatim>\<open>req.files\<close> (\<open>None\<close> when the
  middleware did not set it) and the form field \<^verbatim>\<open>req.body.transformationType\<close>.
  The model covers a field that is absent or a string.
\<close>

record request =
  files :: "uploaded_file list option"
  transformationType :: "string option"

text \<open>The process environment, and the clock read by \<^verbatim>\<open>new Date().toISOString()\<close>.\<close>

record env =
  OPENAI_API_KEY :: "string option"
  DEMO_MODE :: "string option"
  DEMO_IMAGE_URL :: "string option"
  AI_PROVIDER :: "string option"
  REPLICATE_API_TOKEN :: "string option"
  MAX_FILE_SIZE :: "string option"
  MAX_FILES :: "string option"
  now :: string

text \<open>
  A thrown value: its \<^verbatim>\<open>message\<close>, its \<^verbatim>\<open>stack\<close>, and, for an HTTP failure of a
  provider, the \<^verbatim>\<open>response\<close> with its status and the fields
  \<^verbatim>\<open>data.error.message\<close> and \<^verbatim>\<open>data.error.code\<close> of its body.
\<close>

record upstream_response =
  status :: int
  data_error_message :: "string option"
  data_error_code :: "string option"

record js_error =
  err_message :: "string option"
  err_stack :: string
  err_response :: "upstream_response option"

text \<open>\<^verbatim>\<open>new Error(msg)\<close>: no \<^verbatim>\<open>response\<close> property.\<close>

definition new_Error :: "string \<Rightarrow> js_error" where
  "new_Error msg = \<lparr>err_message = Some msg, err_stack = ''Error: '' @ msg, err_response = None\<rparr>"

text \<open>The \<^verbatim>\<open>TypeError\<close> of reading a property of \<^verbatim>\<open>undefined\<close>.\<close>

definition type_error :: js_error where
  "type_error = \<lparr>err_message = Some ''Cannot read properties of undefined'',
                  err_stack = ''TypeError: Cannot read properties of undefined'',
                  err_response = None\<rparr>"

text \<open>An awaited promise fulfils, rejects, or never settles.\<close>

datatype 'a settled = Fulfilled 'a | Rejected js_error | Never

text \<open>
  The body of a successful reply of the synchronous provider, as far as the controller
  reads it: the \<^verbatim>\<open>data\<close> array (\<open>None\<close> when missing) and the \<^verbatim>\<open>url\<close> of each
  element. A prediction of the asynchronous provider: \<^verbatim>\<open>status\<close> and \<^verbatim>\<open>output\<close>.
\<close>

record openai_payload =
  data_urls :: "string option list option"

record prediction =
  pred_id :: string
  pred_status :: string
  pred_output :: "string list option"

text \<open>
  What the two providers answer is outside the program: it is an input of the model.
  The HTTP client of the synchronous provider runs with a timeout, so its call settles;
  the client of the asynchronous provider has none.
\<close>

record provider_stub =
  axios_post :: "js_error + openai_payload"
  predictions_create :: "prediction settled"
  replicate_wait :: "prediction settled"

text \<open>Every call that leaves the process towards a provider, in order.\<close>

datatype provider_call =
    AxiosPost string jsval "(string \<times> string) list" nat
  | ReplicateCreate string jsval
  | ReplicateWait prediction

text \<open>Console lines of the cleanup step (other diagnostics are not modelled).\<close>

datatype log_event = CleanedUp string | DeleteFailed string

text \<open>
  The mutable surroundings of a request: the paths present in the uploads directory,
  the paths whose \<^verbatim>\<open>unlinkSync\<close> throws, the console, and the calls sent out.
\<close>

record world =
  present :: "string set"
  undeletable :: "string set"
  console :: "log_event list"
  outbound :: "provider_call list"

record http_response =
  code :: nat
  body :: "(string \<times> jsval) list"

definition error_envelope :: "string \<Rightarrow> jsval \<Rightarrow> (string \<times> jsval) list" where
  "error_envelope e m = [(''success'', JBool False), (''error'', JStr e), (''message'', m)]"


section \<open>Cleanup\<close>

text \<open>
  \<^verbatim>\<open>cleanupUploadedFiles\<close>: for each file, in order, if the path exists it is
  unlinked and a line is logged; an exception of the unlink is caught and logged.
\<close>

definition cleanup_file :: "uploaded_file \<Rightarrow> world \<Rightarrow> world" where
  "cleanup_file file w =
    (if path file \<in> present w then
       (if path file \<in> undeletable w
        then w\<lparr>console := console w @ [DeleteFailed (filename file)]\<rparr>
        else w\<lparr>present := present w - {path file},
               console := console w @ [CleanedUp (filename file)]\<rparr>)
     else w)"

fun cleanupUploadedFiles :: "uploaded_file list \<Rightarrow> world \<Rightarrow> world" where
  "cleanupUploadedFiles [] w = w"
| "cleanupUploadedFiles (file # rest) w = cleanupUploadedFiles rest (cleanup_file file w)"


section \<open>The two providers\<close>

definition openai_request_body :: "jsval \<Rightarrow> jsval" where
  "openai_request_body prompt =
    JObj [(''model'', JStr ''dall-e-3''),
          (''prompt'', prompt),
          (''n'', JNum 1),
          (''size'', JStr ''1024x1792''),
          (''quality'', JStr ''hd''),
          (''style'', JStr ''natural'')]"

definition openai_headers :: "env \<Rightarrow> (string \<times> string) list" where
  "openai_headers e =
    [(''Authorization'',
        ''Bearer '' @ (case OPENAI_API_KEY e of None \<Rightarrow> ''undefined'' | Some k \<Rightarrow> k)),
     (''Content-Type'', ''application/json'')]"

datatype gen_result = OpenAIData openai_payload | ReplicateUrl string

text \<open>\<^verbatim>\<open>callOpenAIAPI(prompt, files)\<close>: one POST; the reply's body is returned.\<close>

definition callOpenAIAPI ::
  "env \<Rightarrow> provider_stub \<Rightarrow> jsval \<Rightarrow> uploaded_file list \<Rightarrow> world \<Rightarrow> gen_result settled \<times> world" where
  "callOpenAIAPI e stub prompt fs w =
    (let w1 = w\<lparr>outbound := outbound w @
                 [AxiosPost ''https://api.openai.com/v1/images/generations''
                    (openai_request_body prompt) (openai_headers e) 60000]\<rparr>
     in (case axios_post stub of
           Inl err \<Rightarrow> (Rejected err, w1)
         | Inr payload \<Rightarrow> (Fulfilled (OpenAIData payload), w1)))"

definition replicate_request_body :: "jsval \<Rightarrow> jsval" where
  "replicate_request_body prompt =
    JObj [(''version'', JStr ''39ed52f2a78e934b3ba6e2a89f5b1c712de7dfea535525255b1aa35c5565e08b''),
          (''input'', JObj
            [(''prompt'', prompt),
             (''width'', JNum 768),
             (''height'', JNum 1344),
             (''num_outputs'', JNum 1),
             (''scheduler'', JStr ''K_EULER''),
             (''num_inference_steps'', JNum 20),
             (''guidance_scale'', JDec 75 1),
             (''prompt_strength'', JDec 8 1),
             (''refine'', JStr ''expert_ensemble_refiner''),
             (''refine_steps'', JNum 5)])]"

definition replicate_placeholder :: string where
  "replicate_placeholder =
    ''https://images.unsplash.com/photo-1544005313-94ddf0286df2?w=768&h=1344&fit=crop&crop=face''"

text \<open>
  The \<^verbatim>\<open>try\<close> block of \<^verbatim>\<open>callReplicateAPI\<close>: create the prediction, wait for it,
  return its first output, or throw when it did not succeed or has no output.
\<close>

definition replicate_try ::
  "string \<Rightarrow> provider_stub \<Rightarrow> jsval \<Rightarrow> world \<Rightarrow> string settled \<times> world" where
  "replicate_try auth stub prompt w =
    (let w1 = w\<lparr>outbound := outbound w @ [ReplicateCreate auth (replicate_request_body prompt)]\<rparr>
     in (case predictions_create stub of
           Never \<Rightarrow> (Never, w1)
         | Rejected err \<Rightarrow> (Rejected err, w1)
         | Fulfilled prediction \<Rightarrow>
             (let w2 = w1\<lparr>outbound := outbound w1 @ [ReplicateWait prediction]\<rparr>
              in (case replicate_wait stub of
                    Never \<Rightarrow> (Never, w2)
                  | Rejected err \<Rightarrow> (Rejected err, w2)
                  | Fulfilled finalPrediction \<Rightarrow>
                      (case pred_output finalPrediction of
                         Some (imageUrl # others) \<Rightarrow>
                           (if pred_status finalPrediction = ''succeeded''
                            then (Fulfilled imageUrl, w2)
                            else (Rejected (new_Error (''Prediction failed with status: '' @
                                     pred_status finalPrediction)), w2))
                       | _ \<Rightarrow>
                           (Rejected (new_Error (''Prediction failed with status: '' @
                               pred_status finalPrediction)), w2))))))"

text \<open>The test of the \<^verbatim>\<open>catch\<close> block: the message is truthy and contains the marker.\<close>

definition has_stream_marker :: "js_error \<Rightarrow> bool" where
  "has_stream_marker err =
    (case err_message err of
       None \<Rightarrow> False
     | Some m \<Rightarrow> m \<noteq> [] \<and> str_includes m ''ReadableStream'')"

text \<open>
  \<^verbatim>\<open>callReplicateAPI(prompt, files)\<close>: the token check throws before the
  \<^verbatim>\<open>try\<close>; the \<^verbatim>\<open>catch\<close> returns the placeholder on the marker and rethrows
  anything else.
\<close>

definition callReplicateAPI ::
  "env \<Rightarrow> provider_stub \<Rightarrow> jsval \<Rightarrow> uploaded_file list \<Rightarrow> world \<Rightarrow> gen_result settled \<times> world" where
  "callReplicateAPI e stub prompt fs w =
    (case REPLICATE_API_TOKEN e of
       None \<Rightarrow> (Rejected (new_Error ''Replicate API token not configured''), w)
     | Some token \<Rightarrow>
         (if token = [] \<or> token = ''your_replicate_token_here''
          then (Rejected (new_Error ''Replicate API token not configured''), w)
          else
            (case replicate_try token stub prompt w of
               (Fulfilled imageUrl, w1) \<Rightarrow> (Fulfilled (ReplicateUrl imageUrl), w1)
             | (Never, w1) \<Rightarrow> (Never, w1)
             | (Rejected err, w1) \<Rightarrow>
                 (if has_stream_marker err
                  then (Fulfilled (ReplicateUrl replicate_placeholder), w1)
                  else (Rejected err, w1)))))"


section \<open>The controller\<close>

definition no_images_response :: http_response where
  "no_images_response =
    \<lparr>code = 400,
     body = error_envelope ''No images uploaded''
              (JStr ''Please upload at least 1 image (max 2)'')\<rparr>"

definition api_configuration_response :: http_response where
  "api_configuration_response =
    \<lparr>code = 500,
     body = error_envelope ''API configuration error''
              (JStr ''Image generation service not properly configured'')\<rparr>"

definition demo_fallback_url :: string where
  "demo_fallback_url =
    ''https://images.unsplash.com/photo-1544005313-94ddf0286df2?w=400&h=600&fit=crop&crop=face''"

definition demo_response :: "env \<Rightarrow> http_response" where
  "demo_response e =
    \<lparr>code = 200,
     body = [(''success'', JBool True),
             (''message'', JStr ''Baby selfie generated successfully! (Demo Mode)''),
             (''data'', JObj
               [(''imageUrl'', JStr (or_default (DEMO_IMAGE_URL e) demo_fallback_url)),
                (''prompt'', JStr ''Demo mode - AI generation temporarily unavailable''),
                (''timestamp'', JStr (now e)),
                (''demo'', JBool True)])]\<rparr>"

definition success_response :: "env \<Rightarrow> string \<Rightarrow> jsval \<Rightarrow> string \<Rightarrow> jsval \<Rightarrow> http_response" where
  "success_response e tt prompt aiProvider imageUrl =
    \<lparr>code = 200,
     body = [(''success'', JBool True),
             (''message'', JStr (replace_first CHR ''_'' CHR '' '' tt @
                                  '' transformation generated successfully!'')),
             (''data'', JObj
               [(''imageUrl'', imageUrl),
                (''prompt'', prompt),
                (''transformationType'', JStr tt),
                (''timestamp'', JStr (now e)),
                (''provider'', JStr aiProvider)])]\<rparr>"

definition billing_limit_response :: http_response where
  "billing_limit_response =
    \<lparr>code = 402,
     body = error_envelope ''Service temporarily unavailable''
              (JStr ''AI image generation service needs account top-up. Please try again later.'')\<rparr>"

definition invalid_request_response :: "string \<Rightarrow> http_response" where
  "invalid_request_response errorMessage =
    \<lparr>code = 400, body = error_envelope ''Invalid request to AI service'' (JStr errorMessage)\<rparr>"

definition insufficient_credits_response :: http_response where
  "insufficient_credits_response =
    \<lparr>code = 402,
     body = error_envelope ''Insufficient credits''
              (JStr ''AI service needs credits to generate images. Please try again later.'')\<rparr>"

definition rate_limit_response :: http_response where
  "rate_limit_response =
    \<lparr>code = 429,
     body = error_envelope ''Rate limit exceeded''
              (JStr ''Too many requests. Please try again later'')\<rparr>"

definition generation_failed_response :: http_response where
  "generation_failed_response =
    \<lparr>code = 500,
     body = error_envelope ''Image generation failed''
              (JStr ''Unable to generate baby selfie. Please try again'')\<rparr>"

text \<open>
  The translation of a caught error into a response (the second half of the
  \<^verbatim>\<open>catch\<close> block of \<^verbatim>\<open>generateBabyImage\<close>).
\<close>

definition error_response :: "js_error \<Rightarrow> http_response" where
  "error_response error =
    (case err_response error of
       None \<Rightarrow> generation_failed_response
     | Some r \<Rightarrow>
         (if status r = 400 then
            (let errorMessage = or_default (data_error_message r)
                                  ''Please check your images and try again'';
                 errorCode = data_error_code r
             in if errorCode = Some ''billing_hard_limit_reached''
                then billing_limit_response
                else invalid_request_response errorMessage)
          else if status r = 402 then insufficient_credits_response
          else if status r = 429 then rate_limit_response
          else generation_failed_response))"

text \<open>
  The whole \<^verbatim>\<open>catch\<close> block: the uploads are cleaned up when \<^verbatim>\<open>req.files\<close> is
  set, then the error is translated.
\<close>

definition handle_error :: "js_error \<Rightarrow> request \<Rightarrow> world \<Rightarrow> http_response option \<times> world" where
  "handle_error error req w =
    (let w1 = (case files req of None \<Rightarrow> w | Some fs \<Rightarrow> cleanupUploadedFiles fs w)
     in (Some (error_response error), w1))"

text \<open>
  The image URL of the success envelope: the value itself for the asynchronous provider,
  \<^verbatim>\<open>imageGenerationResponse.data[0].url\<close> for the synchronous one, which throws
  when \<^verbatim>\<open>data\<close> is missing or empty. The asynchronous path is the one that yields
  \<open>ReplicateUrl\<close>, so the case distinction is the source's test of the provider name.
\<close>

definition image_url_of :: "gen_result \<Rightarrow> js_error + jsval" where
  "image_url_of g =
    (case g of
       ReplicateUrl u \<Rightarrow> Inr (JStr u)
     | OpenAIData payload \<Rightarrow>
         (case data_urls payload of
            None \<Rightarrow> Inl type_error
          | Some [] \<Rightarrow> Inl type_error
          | Some (u # others) \<Rightarrow> Inr (js_of u)))"

text \<open>The choice of the provider by its name (lines 70 to 74 of the controller).\<close>

definition call_provider ::
  "env \<Rightarrow> provider_stub \<Rightarrow> string \<Rightarrow> jsval \<Rightarrow> uploaded_file list \<Rightarrow> world \<Rightarrow> gen_result settled \<times> world" where
  "call_provider e stub aiProvider prompt fs w =
    (if aiProvider = ''replicate''
     then callReplicateAPI e stub prompt fs w
     else callOpenAIAPI e stub prompt fs w)"

text \<open>
  \<^verbatim>\<open>generateBabyImage(req, res)\<close>. The result is the response sent (\<open>None\<close> when
  an awaited provider call never settles) and the world afterwards.
\<close>

definition generateBabyImage ::
  "env \<Rightarrow> provider_stub \<Rightarrow> request \<Rightarrow> world \<Rightarrow> http_response option \<times> world" where
  "generateBabyImage e stub req w =
    (case files req of
       None \<Rightarrow> (Some no_images_response, w)
     | Some fs \<Rightarrow>
         if length fs = 0 then (Some no_images_response, w)
         else if \<not> truthy_str (OPENAI_API_KEY e) then (Some api_configuration_response, w)
         else if DEMO_MODE e = Some ''true'' then
           (Some (demo_response e), cleanupUploadedFiles fs w)
         else
           (let tt = or_default (transformationType req) ''baby_blur'';
                prompt = generatePrompt tt (length fs);
                aiProvider = or_default (AI_PROVIDER e) ''openai''
            in (case call_provider e stub aiProvider prompt fs w of
                  (Never, w1) \<Rightarrow> (None, w1)
                | (Rejected error, w1) \<Rightarrow> handle_error error req w1
                | (Fulfilled imageGenerationResponse, w1) \<Rightarrow>
                    (let w2 = cleanupUploadedFiles fs w1
                     in (case image_url_of imageGenerationResponse of
                           Inl error \<Rightarrow> handle_error error req w2
                         | Inr imageUrl \<Rightarrow>
                             (Some (success_response e tt prompt aiProvider imageUrl), w2))))))"


section \<open>The route and the global error handler\<close>

text \<open>
  The multipart middleware is an external library. What it passes to the route's
  callback is an input of the model: no error, an error of its own class with a
  \<^verbatim>\<open>code\<close>, or any other error (the file filter's rejection).
\<close>

datatype upload_outcome = UploadOk | MulterError string js_error | OtherError js_error

definition file_too_large_response :: http_response where
  "file_too_large_response =
    \<lparr>code = 413,
     body = error_envelope ''File too large'' (JStr ''Each image must be smaller than 10MB'')\<rparr>"

definition too_many_files_response :: http_response where
  "too_many_files_response =
    \<lparr>code = 400,
     body = error_envelope ''Too many files'' (JStr ''Maximum 2 images allowed'')\<rparr>"

definition unexpected_field_response :: http_response where
  \<open>unexpected_field_response =
    \<lparr>code = 400,
     body = error_envelope ''Unexpected field''
              (JStr ''Use field name "images" for file uploads'')\<rparr>\<close>

definition upload_error_response :: "js_error \<Rightarrow> http_response" where
  "upload_error_response err =
    \<lparr>code = 400, body = error_envelope ''Upload error'' (js_of (err_message err))\<rparr>"

definition invalid_file_response :: "js_error \<Rightarrow> http_response" where
  "invalid_file_response err =
    \<lparr>code = 400, body = error_envelope ''Invalid file'' (js_of (err_message err))\<rparr>"

text \<open>
  \<^verbatim>\<open>router.post('/generate-image', ...)\<close>: the callback answers an upload error
  itself and returns; only without an error does \<^verbatim>\<open>next()\<close> enter the controller.
\<close>

definition post_generate_image ::
  "env \<Rightarrow> provider_stub \<Rightarrow> upload_outcome \<Rightarrow> request \<Rightarrow> world \<Rightarrow> http_response option \<times> world" where
  "post_generate_image e stub upl req w =
    (case upl of
       MulterError c err \<Rightarrow>
         (if c = ''LIMIT_FILE_SIZE'' then (Some file_too_large_response, w)
          else if c = ''LIMIT_FILE_COUNT'' then (Some too_many_files_response, w)
          else if c = ''LIMIT_UNEXPECTED_FILE'' then (Some unexpected_field_response, w)
          else (Some (upload_error_response err), w))
     | OtherError err \<Rightarrow> (Some (invalid_file_response err), w)
     | UploadOk \<Rightarrow> generateBabyImage e stub req w)"

text \<open>The application's global error handler (\<^verbatim>\<open>app.use((error, req, res, next) => ...)\<close>).\<close>

definition global_error_handler :: "js_error \<Rightarrow> http_response" where
  "global_error_handler error =
    \<lparr>code = 500, body = error_envelope ''Internal server error'' (js_of (err_message error))\<rparr>"


section \<open>Upload intake\<close>

















section \<open>Reading a response, and erasing stack traces\<close>

text \<open>A field of the \<^verbatim>\<open>data\<close> object of a response body, and a top-level field.\<close>

definition body_field :: "http_response \<Rightarrow> string \<Rightarrow> jsval option" where
  "body_field r k = map_of (body r) k"

definition data_field :: "http_response \<Rightarrow> string \<Rightarrow> jsval option" where
  "data_field r k = (case map_of (body r) ''data'' of Some (JObj d) \<Rightarrow> map_of d k | _ \<Rightarrow> None)"

text \<open>
  Replacing the stack trace of every error that enters a request. A response that is
  the same before and after cannot contain a stack trace.
\<close>

definition strip_stack :: "js_error \<Rightarrow> js_error" where
  "strip_stack err = err\<lparr>err_stack := []\<rparr>"

definition strip_settled :: "'a settled \<Rightarrow> 'a settled" where
  "strip_settled s = (case s of Rejected err \<Rightarrow> Rejected (strip_stack err) | other \<Rightarrow> other)"

definition strip_stub :: "provider_stub \<Rightarrow> provider_stub" where
  "strip_stub stub =
    \<lparr>axios_post = (case axios_post stub of Inl err \<Rightarrow> Inl (strip_stack err) | Inr p \<Rightarrow> Inr p),
     predictions_create = strip_settled (predictions_create stub),
     replicate_wait = strip_settled (replicate_wait stub)\<rparr>"

definition strip_upload :: "upload_outcome \<Rightarrow> upload_outcome" where
  "strip_upload upl =
    (case upl of
       UploadOk \<Rightarrow> UploadOk
     | MulterError c err \<Rightarrow> MulterError c (strip_stack err)
     | OtherError err \<Rightarrow> OtherError (strip_stack err))"


section \<open>Example inputs\<close>

definition photo1 :: uploaded_file where
  "photo1 = \<lparr>path = ''uploads/babyblur-1700000000000-1.jpg'',
              filename = ''babyblur-1700000000000-1.jpg'',
              originalname = Some ''mum.jpg'', mimetype = Some ''image/jpeg'', fsize = 2048\<rparr>"

definition photo2 :: uploaded_file where
  "photo2 = \<lparr>path = ''uploads/babyblur-1700000000000-2.jpg'',
              filename = ''babyblur-1700000000000-2.jpg'',
              originalname = Some ''dad.jpg'', mimetype = Some ''image/jpeg'', fsize = 4096\<rparr>"

definition world1 :: world where
  "world1 = \<lparr>present = {path photo1, path photo2}, undeletable = {},
              console = [], outbound = []\<rparr>"

definition env_openai :: env where
  "env_openai = \<lparr>OPENAI_API_KEY = Some ''sk-test'', DEMO_MODE = None, DEMO_IMAGE_URL = None,
                  AI_PROVIDER = None, REPLICATE_API_TOKEN = None,
                  MAX_FILE_SIZE = None, MAX_FILES = None,
                  now = ''2024-01-01T00:00:00.000Z''\<rparr>"

definition env_replicate :: env where
  "env_replicate = env_openai\<lparr>AI_PROVIDER := Some ''replicate'',
                                REPLICATE_API_TOKEN := Some ''r8_test''\<rparr>"

definition env_demo :: env where
  "env_demo = env_openai\<lparr>DEMO_MODE := Some ''true'',
                           DEMO_IMAGE_URL := Some ''https://example.org/demo.png''\<rparr>"

definition env_demo_no_key :: env where
  "env_demo_no_key = env_demo\<lparr>OPENAI_API_KEY := None, AI_PROVIDER := Some ''replicate''\<rparr>"

definition queued :: prediction where
  "queued = \<lparr>pred_id = ''p1'', pred_status = ''starting'', pred_output = None\<rparr>"

definition done_prediction :: prediction where
  "done_prediction = \<lparr>pred_id = ''p1'', pred_status = ''succeeded'',
                        pred_output = Some [''https://replicate.delivery/out.png'']\<rparr>"

definition stub_ok :: provider_stub where
  "stub_ok = \<lparr>axios_post = Inr \<lparr>data_urls = Some [Some ''https://oai.example/img.png'']\<rparr>,
               predictions_create = Fulfilled queued,
               replicate_wait = Fulfilled done_prediction\<rparr>"

definition upstream_error :: "int \<Rightarrow> string option \<Rightarrow> js_error" where
  "upstream_error st c =
    \<lparr>err_message = Some ''Request failed'', err_stack = ''Error: Request failed at settle'',
     err_response = Some \<lparr>status = st, data_error_message = Some ''upstream says no'',
                           data_error_code = c\<rparr>\<rparr>"

definition stream_error :: js_error where
  "stream_error = \<lparr>err_message = Some ''ReadableStream is not defined'',
                    err_stack = ''ReferenceError: ReadableStream is not defined'',
                    err_response = None\<rparr>"

definition stub_failing :: "js_error \<Rightarrow> provider_stub" where
  "stub_failing err = \<lparr>axios_post = Inl err, predictions_create = Rejected err,
                        replicate_wait = Rejected err\<rparr>"

definition other_photo :: uploaded_file where
  "other_photo = \<lparr>path = ''uploads/babyblur-1700000000999-7.png'',
                   filename = ''babyblur-1700000000999-7.png'',
                   originalname = Some ''someone-else.png'', mimetype = Some ''image/png'',
                   fsize = 900000\<rparr>"



definition two_photos :: request where
  "two_photos = \<lparr>files = Some [photo1, photo2], transformationType = Some ''style_anime''\<rparr>"

definition one_photo :: request where
  "one_photo = \<lparr>files = Some [photo1], transformationType = None\<rparr>"


section \<open>Facts about cleanup\<close>

lemma cleanup_file_outbound: "outbound (cleanup_file f w) = outbound w"
  by (simp add: cleanup_file_def)

lemma cleanup_file_undeletable: "undeletable (cleanup_file f w) = undeletable w"
  by (simp add: cleanup_file_def)

lemma cleanup_outbound: "outbound (cleanupUploadedFiles fs w) = outbound w"
  by (induction fs arbitrary: w) (simp_all add: cleanup_file_outbound)

lemma cleanup_undeletable: "undeletable (cleanupUploadedFiles fs w) = undeletable w"
  by (induction fs arbitrary: w) (simp_all add: cleanup_file_undeletable)

lemma cleanup_file_present:
  "present (cleanup_file f w) = present w - ({path f} - undeletable w)"
  by (auto simp: cleanup_file_def)

text \<open>After the cleanup, exactly the files whose unlink throws are left of the uploads.\<close>

lemma cleanup_present:
  "present (cleanupUploadedFiles fs w) = present w - (path ` set fs - undeletable w)"
  by (induction fs arbitrary: w) (auto simp: cleanup_file_present cleanup_file_undeletable)


section \<open>Facts about strings and the prompt table\<close>

lemma startsWith_iff: "startsWith s p \<longleftrightarrow> (\<exists>b. s = p @ b)"
  by (induction s p rule: startsWith.induct) auto

lemma str_includes_iff: "str_includes s p \<longleftrightarrow> (\<exists>a b. s = a @ p @ b)"
proof (induction s)
  case Nil
  then show ?case by auto
next
  case (Cons c cs)
  show ?case
  proof
    assume "str_includes (c # cs) p"
    then consider "startsWith (c # cs) p" | "str_includes cs p" by auto
    then show "\<exists>a b. c # cs = a @ p @ b"
    proof cases
      case 1
      then obtain b where "c # cs = p @ b" using startsWith_iff by blast
      then have "c # cs = [] @ p @ b" by simp
      then show ?thesis by blast
    next
      case 2
      then obtain a b where "cs = a @ p @ b" using Cons.IH by blast
      then have "c # cs = (c # a) @ p @ b" by simp
      then show ?thesis by blast
    qed
  next
    assume "\<exists>a b. c # cs = a @ p @ b"
    then obtain a b where ab: "c # cs = a @ p @ b" by blast
    show "str_includes (c # cs) p"
    proof (cases a)
      case Nil
      then have "startsWith (c # cs) p" using ab startsWith_iff by auto
      then show ?thesis by simp
    next
      case (Cons x a')
      then have "cs = a' @ p @ b" using ab by simp
      then have "str_includes cs p" using Cons.IH by blast
      then show ?thesis by simp
    qed
  qed
qed

lemma has_stream_marker_iff:
  "has_stream_marker err \<longleftrightarrow>
     (\<exists>a b. err_message err = Some (a @ ''ReadableStream'' @ b))"
  by (cases "err_message err") (auto simp: has_stream_marker_def str_includes_iff)

lemma generatePrompt_baby_blur: "generatePrompt ''baby_blur'' n = JStr baby_blur_prompt"
  by (simp add: generatePrompt_def get_property_def prompts_def baby_blur_prompt_def)

text \<open>
  The fallback works for every string that is neither one of the nine identifiers nor
  the name of a property that the prompt table inherits from \<^verbatim>\<open>Object.prototype\<close>.
\<close>

lemma generatePrompt_fallback:
  "t \<notin> set transformation_ids \<Longrightarrow> t \<notin> fst ` set object_prototype \<Longrightarrow>
   generatePrompt t n = JStr avatar_prompt"
  by (simp add: generatePrompt_def get_property_def prompts_def object_prototype_def
      transformation_ids_def)


section \<open>Facts about the controller\<close>

lemma handle_error_response: "fst (handle_error err req w) = Some (error_response err)"
  by (simp add: handle_error_def Let_def)

lemma handle_error_outbound: "outbound (snd (handle_error err req w)) = outbound w"
  by (simp add: handle_error_def Let_def cleanup_outbound split: option.splits)

lemma controller_entered:
  assumes "files req = Some fs" and "fs \<noteq> []" and "truthy_str (OPENAI_API_KEY e)"
    and "DEMO_MODE e \<noteq> Some ''true''"
  shows "post_generate_image e stub UploadOk req w =
    (case call_provider e stub (or_default (AI_PROVIDER e) ''openai'')
            (generatePrompt (or_default (transformationType req) ''baby_blur'') (length fs)) fs w of
       (Never, w1) \<Rightarrow> (None, w1)
     | (Rejected error, w1) \<Rightarrow> handle_error error req w1
     | (Fulfilled g, w1) \<Rightarrow>
         (case image_url_of g of
            Inl error \<Rightarrow> handle_error error req (cleanupUploadedFiles fs w1)
          | Inr imageUrl \<Rightarrow>
              (Some (success_response e (or_default (transformationType req) ''baby_blur'')
                 (generatePrompt (or_default (transformationType req) ''baby_blur'') (length fs))
                 (or_default (AI_PROVIDER e) ''openai'') imageUrl),
               cleanupUploadedFiles fs w1)))"
  using assms
  by (simp add: post_generate_image_def generateBabyImage_def Let_def
      split: prod.splits settled.splits)

lemma rejected_provider_response:
  assumes "files req = Some fs" and "fs \<noteq> []" and "truthy_str (OPENAI_API_KEY e)"
    and "DEMO_MODE e \<noteq> Some ''true''"
    and "fst (call_provider e stub (or_default (AI_PROVIDER e) ''openai'')
            (generatePrompt (or_default (transformationType req) ''baby_blur'') (length fs)) fs w)
         = Rejected err"
  shows "fst (post_generate_image e stub UploadOk req w) = Some (error_response err)"
proof -
  obtain w1 where "call_provider e stub (or_default (AI_PROVIDER e) ''openai'')
            (generatePrompt (or_default (transformationType req) ''baby_blur'') (length fs)) fs w
         = (Rejected err, w1)"
    using assms(5) by (metis prod.collapse)
  then show ?thesis
    using controller_entered [OF assms(1-4), of stub w] by (simp add: handle_error_response)
qed

lemma callReplicateAPI_caught:
  assumes "REPLICATE_API_TOKEN e = Some token" and "token \<noteq> []"
    and "token \<noteq> ''your_replicate_token_here''"
    and "fst (replicate_try token stub prompt w) = Rejected err"
  shows "callReplicateAPI e stub prompt fs w =
           (if has_stream_marker err then Fulfilled (ReplicateUrl replicate_placeholder)
            else Rejected err, snd (replicate_try token stub prompt w))"
proof -
  obtain w1 where "replicate_try token stub prompt w = (Rejected err, w1)"
    using assms(4) by (metis prod.collapse)
  then show ?thesis
    using assms(1-3) by (simp add: callReplicateAPI_def)
qed

text \<open>What is sent to a provider depends on the world only through what was sent before.\<close>

lemma replicate_try_world:
  assumes "outbound w = outbound w'"
  shows "fst (replicate_try t stub prompt w) = fst (replicate_try t stub prompt w')
       \<and> outbound (snd (replicate_try t stub prompt w)) = outbound (snd (replicate_try t stub prompt w'))"
  using assms
  by (simp add: replicate_try_def Let_def split: settled.splits option.splits list.splits)

lemma callReplicateAPI_world:
  assumes "outbound w = outbound w'"
  shows "fst (callReplicateAPI e stub prompt fs w) = fst (callReplicateAPI e stub prompt fs' w')
       \<and> outbound (snd (callReplicateAPI e stub prompt fs w))
           = outbound (snd (callReplicateAPI e stub prompt fs' w'))"
proof (cases "REPLICATE_API_TOKEN e")
  case None
  then show ?thesis using assms by (simp add: callReplicateAPI_def)
next
  case (Some t)
  obtain r w1 where a: "replicate_try t stub prompt w = (r, w1)" by (cases "replicate_try t stub prompt w")
  obtain r' w1' where b: "replicate_try t stub prompt w' = (r', w1')" by (cases "replicate_try t stub prompt w'")
  have "r = r'" "outbound w1 = outbound w1'"
    using replicate_try_world [OF assms, of t stub prompt] a b by simp_all
  then show ?thesis
    using Some assms a b by (simp add: callReplicateAPI_def split: settled.splits)
qed

lemma callOpenAIAPI_world:
  assumes "outbound w = outbound w'"
  shows "fst (callOpenAIAPI e stub prompt fs w) = fst (callOpenAIAPI e stub prompt fs' w')
       \<and> outbound (snd (callOpenAIAPI e stub prompt fs w))
           = outbound (snd (callOpenAIAPI e stub prompt fs' w'))"
  using assms by (simp add: callOpenAIAPI_def Let_def split: sum.splits)

lemma call_provider_world:
  assumes "outbound w = outbound w'"
  shows "fst (call_provider e stub a prompt fs w) = fst (call_provider e stub a prompt fs' w')
       \<and> outbound (snd (call_provider e stub a prompt fs w))
           = outbound (snd (call_provider e stub a prompt fs' w'))"
  using callOpenAIAPI_world [OF assms] callReplicateAPI_world [OF assms]
  by (simp add: call_provider_def)

lemma generateBabyImage_outbound:
  assumes "files req = Some fs" and "fs \<noteq> []" and "truthy_str (OPENAI_API_KEY e)"
    and "DEMO_MODE e \<noteq> Some ''true''"
  shows "outbound (snd (post_generate_image e stub UploadOk req w)) =
         outbound (snd (call_provider e stub (or_default (AI_PROVIDER e) ''openai'')
            (generatePrompt (or_default (transformationType req) ''baby_blur'') (length fs)) fs w))"
proof -
  obtain r w1 where cp: "call_provider e stub (or_default (AI_PROVIDER e) ''openai'')
            (generatePrompt (or_default (transformationType req) ''baby_blur'') (length fs)) fs w
         = (r, w1)"
    by (metis prod.collapse)
  show ?thesis
    using controller_entered [OF assms, of stub w] cp
    by (simp add: handle_error_outbound cleanup_outbound split: settled.splits sum.splits)
qed

text \<open>Stack traces do not reach a response.\<close>

lemma error_response_strip: "error_response (strip_stack err) = error_response err"
  by (simp add: error_response_def strip_stack_def)

lemma has_stream_marker_strip: "has_stream_marker (strip_stack err) = has_stream_marker err"
  by (simp add: has_stream_marker_def strip_stack_def)

lemma handle_error_strip: "handle_error (strip_stack err) req w = handle_error err req w"
  by (simp add: handle_error_def error_response_strip)

lemma strip_settled_simps:
  "strip_settled (Fulfilled x) = Fulfilled x"
  "strip_settled (Rejected err) = Rejected (strip_stack err)"
  "strip_settled Never = Never"
  by (simp_all add: strip_settled_def)

lemma strip_stack_idem: "strip_stack (strip_stack err) = strip_stack err"
  by (simp add: strip_stack_def)

lemma replicate_try_strip:
  "strip_settled (fst (replicate_try t (strip_stub stub) prompt w))
     = strip_settled (fst (replicate_try t stub prompt w))
   \<and> snd (replicate_try t (strip_stub stub) prompt w) = snd (replicate_try t stub prompt w)"
  by (simp add: replicate_try_def strip_stub_def Let_def strip_settled_simps strip_stack_idem
      split: settled.splits option.splits list.splits)

lemma callReplicateAPI_strip:
  "strip_settled (fst (callReplicateAPI e (strip_stub stub) prompt fs w))
     = strip_settled (fst (callReplicateAPI e stub prompt fs w))
   \<and> snd (callReplicateAPI e (strip_stub stub) prompt fs w) = snd (callReplicateAPI e stub prompt fs w)"
proof (cases "REPLICATE_API_TOKEN e")
  case None
  then show ?thesis by (simp add: callReplicateAPI_def)
next
  case (Some t)
  obtain r w1 where a: "replicate_try t stub prompt w = (r, w1)"
    by (cases "replicate_try t stub prompt w")
  obtain r' w1' where b: "replicate_try t (strip_stub stub) prompt w = (r', w1')"
    by (cases "replicate_try t (strip_stub stub) prompt w")
  have rel: "strip_settled r' = strip_settled r" "w1' = w1"
    using replicate_try_strip [of t stub prompt w] a b by simp_all
  show ?thesis
  proof (cases r)
    case (Fulfilled u)
    then have "r' = Fulfilled u" using rel(1) by (cases r') (simp_all add: strip_settled_simps)
    then show ?thesis using Some a b rel(2) Fulfilled by (simp add: callReplicateAPI_def)
  next
    case (Rejected err)
    then obtain err' where r': "r' = Rejected err'" "strip_stack err' = strip_stack err"
      using rel(1) by (cases r') (simp_all add: strip_settled_simps)
    have "has_stream_marker err' = has_stream_marker err"
      using r'(2) has_stream_marker_strip by metis
    then show ?thesis
      using Some a b rel(2) Rejected r' by (simp add: callReplicateAPI_def strip_settled_simps)
  next
    case Never
    then have "r' = Never" using rel(1) by (cases r') (simp_all add: strip_settled_simps)
    then show ?thesis using Some a b rel(2) Never by (simp add: callReplicateAPI_def)
  qed
qed

lemma callOpenAIAPI_strip:
  "strip_settled (fst (callOpenAIAPI e (strip_stub stub) prompt fs w))
     = strip_settled (fst (callOpenAIAPI e stub prompt fs w))
   \<and> snd (callOpenAIAPI e (strip_stub stub) prompt fs w) = snd (callOpenAIAPI e stub prompt fs w)"
  by (simp add: callOpenAIAPI_def strip_stub_def Let_def strip_settled_simps strip_stack_idem
      split: sum.splits)

lemma call_provider_strip:
  "strip_settled (fst (call_provider e (strip_stub stub) a prompt fs w))
     = strip_settled (fst (call_provider e stub a prompt fs w))
   \<and> snd (call_provider e (strip_stub stub) a prompt fs w) = snd (call_provider e stub a prompt fs w)"
  using callOpenAIAPI_strip callReplicateAPI_strip by (simp add: call_provider_def)

lemma generateBabyImage_strip:
  "generateBabyImage e (strip_stub stub) req w = generateBabyImage e stub req w"
proof (cases "\<exists>fs. files req = Some fs \<and> fs \<noteq> [] \<and> truthy_str (OPENAI_API_KEY e)
                \<and> DEMO_MODE e \<noteq> Some ''true''")
  case False
  then show ?thesis
    by (auto simp: generateBabyImage_def split: option.splits)
next
  case True
  then obtain fs where f: "files req = Some fs" "fs \<noteq> []" "truthy_str (OPENAI_API_KEY e)"
    "DEMO_MODE e \<noteq> Some ''true''" by blast
  let ?a = "or_default (AI_PROVIDER e) ''openai''"
  let ?p = "generatePrompt (or_default (transformationType req) ''baby_blur'') (length fs)"
  obtain r w1 where a: "call_provider e stub ?a ?p fs w = (r, w1)"
    by (cases "call_provider e stub ?a ?p fs w")
  obtain r' w1' where b: "call_provider e (strip_stub stub) ?a ?p fs w = (r', w1')"
    by (cases "call_provider e (strip_stub stub) ?a ?p fs w")
  have rel: "strip_settled r' = strip_settled r" "w1' = w1"
    using call_provider_strip [of e stub ?a ?p fs w] a b by simp_all
  have "post_generate_image e (strip_stub stub) UploadOk req w
          = post_generate_image e stub UploadOk req w"
  proof (cases r)
    case (Fulfilled g)
    then have "r' = Fulfilled g" using rel(1) by (cases r') (simp_all add: strip_settled_simps)
    then show ?thesis
      using controller_entered [OF f, of stub w] controller_entered [OF f, of "strip_stub stub" w]
        a b rel(2) Fulfilled by simp
  next
    case (Rejected err)
    then obtain err' where r': "r' = Rejected err'" "strip_stack err' = strip_stack err"
      using rel(1) by (cases r') (simp_all add: strip_settled_simps)
    have "handle_error err' req w1 = handle_error err req w1"
      using r'(2) handle_error_strip by metis
    then show ?thesis
      using controller_entered [OF f, of stub w] controller_entered [OF f, of "strip_stub stub" w]
        a b rel(2) Rejected r'(1) by simp
  next
    case Never
    then have "r' = Never" using rel(1) by (cases r') (simp_all add: strip_settled_simps)
    then show ?thesis
      using controller_entered [OF f, of stub w] controller_entered [OF f, of "strip_stub stub" w]
        a b rel(2) Never by simp
  qed
  then show ?thesis by (simp add: post_generate_image_def)
qed

lemma post_generate_image_strip:
  "post_generate_image e (strip_stub stub) (strip_upload upl) req w
     = post_generate_image e stub upl req w"
  by (cases upl)
     (simp_all add: post_generate_image_def strip_upload_def generateBabyImage_strip
        upload_error_response_def invalid_file_response_def strip_stack_def)


text \<open>The provider calls do not touch the uploads directory.\<close>

lemma call_provider_files_on_disk:
  "present (snd (call_provider e stub a prompt fs w)) = present w
   \<and> undeletable (snd (call_provider e stub a prompt fs w)) = undeletable w"
  by (simp add: call_provider_def callOpenAIAPI_def callReplicateAPI_def replicate_try_def Let_def
      split: sum.splits settled.splits option.splits list.splits)

lemma cleanup_twice_present:
  "present (cleanupUploadedFiles fs (cleanupUploadedFiles fs w)) = present (cleanupUploadedFiles fs w)"
  by (auto simp: cleanup_present cleanup_undeletable)

lemma handle_error_present:
  "files req = Some fs \<Longrightarrow>
   present (snd (handle_error err req w)) = present (cleanupUploadedFiles fs w)"
  by (simp add: handle_error_def)

text \<open>
  Once the key check has passed, every path of the controller that sends a response
  leaves of the request's uploads only the files whose unlink throws.
\<close>

lemma cleanup_on_other_paths:
  assumes "files req = Some fs" and "fs \<noteq> []" and "truthy_str (OPENAI_API_KEY e)"
    and "fst (post_generate_image e stub UploadOk req w) \<noteq> None"
  shows "present (snd (post_generate_image e stub UploadOk req w))
           = present w - (path ` set fs - undeletable w)"
proof (cases "DEMO_MODE e = Some ''true''")
  case True
  then show ?thesis
    using assms(1-3)
    by (simp add: post_generate_image_def generateBabyImage_def cleanup_present)
next
  case False
  let ?a = "or_default (AI_PROVIDER e) ''openai''"
  let ?p = "generatePrompt (or_default (transformationType req) ''baby_blur'') (length fs)"
  obtain r w1 where cp: "call_provider e stub ?a ?p fs w = (r, w1)"
    by (cases "call_provider e stub ?a ?p fs w")
  have w1: "present w1 = present w" "undeletable w1 = undeletable w"
    using call_provider_files_on_disk [of e stub ?a ?p fs w] cp by simp_all
  have c1: "present (cleanupUploadedFiles fs w1) = present w - (path ` set fs - undeletable w)"
    by (simp add: cleanup_present w1)
  note entered = controller_entered [OF assms(1-3) False, of stub w]
  show ?thesis
  proof (cases r)
    case (Fulfilled g)
    then show ?thesis
      using entered cp c1 assms(1)
      by (simp add: handle_error_present cleanup_twice_present split: sum.splits)
  next
    case (Rejected err)
    then show ?thesis
      using entered cp c1 assms(1) by (simp add: handle_error_present)
  next
    case Never
    then show ?thesis
      using entered cp assms(4) by simp
  qed
qed


section \<open>Facts about upload intake\<close>







section \<open>The claims\<close>

subsection \<open>C1: demo mode\<close>

text \<open>
  C1, as stated, fails: the check of \<^verbatim>\<open>OPENAI_API_KEY\<close> comes before the check of
  the demo flag. With the demo flag enabled, two accepted files and no key, the
  response is the configuration error with status 500, not the demo envelope.
\<close>

theorem demo_mode_needs_key_counterexample:
  "files two_photos = Some [photo1, photo2]
   \<and> DEMO_MODE env_demo_no_key = Some ''true''
   \<and> fst (post_generate_image env_demo_no_key stub_ok UploadOk two_photos world1)
       = Some api_configuration_response
   \<and> code api_configuration_response = 500
   \<and> Some api_configuration_response \<noteq> Some (demo_response env_demo_no_key)"
  by (simp add: post_generate_image_def generateBabyImage_def two_photos_def env_demo_no_key_def
      env_demo_def env_openai_def truthy_str_def js_of_def api_configuration_response_def
      demo_response_def)

text \<open>
  C1, amended. For every request with at least one accepted file, when
  \<^verbatim>\<open>OPENAI_API_KEY\<close> is set to a non-empty value and the demo flag is
  \<^verbatim>\<open>'true'\<close>, the controller answers with status 200 and the demo envelope:
  \<^verbatim>\<open>demo: true\<close> and the configured placeholder URL, or the fixed stock URL when
  none (or an empty one) is configured. The uploads are cleaned up (every file whose
  unlink does not throw is gone) and no call to a provider is made.
\<close>

theorem demo_mode_bypass:
  assumes "files req = Some fs" and "fs \<noteq> []"
    and "OPENAI_API_KEY e = Some k" and "k \<noteq> []"
    and "DEMO_MODE e = Some ''true''"
  shows "post_generate_image e stub UploadOk req w
           = (Some (demo_response e), cleanupUploadedFiles fs w)
       \<and> code (demo_response e) = 200
       \<and> body_field (demo_response e) ''success'' = Some (JBool True)
       \<and> data_field (demo_response e) ''demo'' = Some (JBool True)
       \<and> data_field (demo_response e) ''imageUrl'' =
            Some (JStr (case DEMO_IMAGE_URL e of
                          None \<Rightarrow> demo_fallback_url
                        | Some u \<Rightarrow> if u = [] then demo_fallback_url else u))
       \<and> outbound (cleanupUploadedFiles fs w) = outbound w
       \<and> present (cleanupUploadedFiles fs w) = present w - (path ` set fs - undeletable w)"
proof -
  have "post_generate_image e stub UploadOk req w
           = (Some (demo_response e), cleanupUploadedFiles fs w)"
    using assms
    by (simp add: post_generate_image_def generateBabyImage_def truthy_str_def js_of_def)
  moreover have "data_field (demo_response e) ''imageUrl'' =
            Some (JStr (case DEMO_IMAGE_URL e of
                          None \<Rightarrow> demo_fallback_url
                        | Some u \<Rightarrow> if u = [] then demo_fallback_url else u))"
    by (simp add: data_field_def demo_response_def or_default_def split: option.splits)
  moreover have "code (demo_response e) = 200"
    "body_field (demo_response e) ''success'' = Some (JBool True)"
    "data_field (demo_response e) ''demo'' = Some (JBool True)"
    by (simp_all add: data_field_def body_field_def demo_response_def)
  ultimately show ?thesis
    by (simp add: cleanup_outbound cleanup_present)
qed

theorem demo_mode_bypass_witness:
  "post_generate_image env_demo stub_ok UploadOk two_photos world1
     = (Some (demo_response env_demo), cleanupUploadedFiles [photo1, photo2] world1)
   \<and> data_field (demo_response env_demo) ''imageUrl'' = Some (JStr ''https://example.org/demo.png'')
   \<and> outbound (cleanupUploadedFiles [photo1, photo2] world1) = []
   \<and> present (cleanupUploadedFiles [photo1, photo2] world1) = {}"
  using demo_mode_bypass [of two_photos "[photo1, photo2]" env_demo "''sk-test''" stub_ok world1]
  by (simp add: two_photos_def env_demo_def env_openai_def world1_def)

subsection \<open>C2: upstream status codes\<close>

text \<open>
  C2. When the call to the chosen provider fails with an error that carries an HTTP
  response, upstream status 400 gives response 400 with the upstream message (or a
  default), unless the upstream error code is \<^verbatim>\<open>billing_hard_limit_reached\<close>, which
  gives 402 with the top-up message; upstream 402 gives 402 with the
  insufficient-credits envelope and upstream 429 gives 429 with the rate-limit envelope.
\<close>

theorem provider_status_mapping:
  assumes "files req = Some fs" and "fs \<noteq> []" and "truthy_str (OPENAI_API_KEY e)"
    and "DEMO_MODE e \<noteq> Some ''true''"
    and "fst (call_provider e stub (or_default (AI_PROVIDER e) ''openai'')
            (generatePrompt (or_default (transformationType req) ''baby_blur'') (length fs)) fs w)
         = Rejected err"
    and "err_response err = Some r"
  shows "(status r = 400 \<and> data_error_code r = Some ''billing_hard_limit_reached'' \<longrightarrow>
            fst (post_generate_image e stub UploadOk req w) = Some billing_limit_response)
       \<and> (status r = 400 \<and> data_error_code r \<noteq> Some ''billing_hard_limit_reached'' \<longrightarrow>
            fst (post_generate_image e stub UploadOk req w) =
              Some (invalid_request_response
                     (or_default (data_error_message r) ''Please check your images and try again'')))
       \<and> (status r = 402 \<longrightarrow>
            fst (post_generate_image e stub UploadOk req w) = Some insufficient_credits_response)
       \<and> (status r = 429 \<longrightarrow>
            fst (post_generate_image e stub UploadOk req w) = Some rate_limit_response)
       \<and> code billing_limit_response = 402
       \<and> body_field billing_limit_response ''message'' =
            Some (JStr ''AI image generation service needs account top-up. Please try again later.'')
       \<and> code (invalid_request_response m) = 400
       \<and> code insufficient_credits_response = 402
       \<and> body_field insufficient_credits_response ''error'' = Some (JStr ''Insufficient credits'')
       \<and> body_field insufficient_credits_response ''message'' =
            Some (JStr ''AI service needs credits to generate images. Please try again later.'')
       \<and> code rate_limit_response = 429
       \<and> body_field rate_limit_response ''error'' = Some (JStr ''Rate limit exceeded'')
       \<and> body_field rate_limit_response ''message'' =
            Some (JStr ''Too many requests. Please try again later'')"
proof -
  have resp: "fst (post_generate_image e stub UploadOk req w) = Some (error_response err)"
    by (rule rejected_provider_response [OF assms(1-5)])
  have "status r = 400 \<and> data_error_code r = Some ''billing_hard_limit_reached'' \<longrightarrow>
          error_response err = billing_limit_response"
    using assms(6) by (simp add: error_response_def)
  moreover have "status r = 400 \<and> data_error_code r \<noteq> Some ''billing_hard_limit_reached'' \<longrightarrow>
          error_response err = invalid_request_response
                     (or_default (data_error_message r) ''Please check your images and try again'')"
    using assms(6) by (simp add: error_response_def)
  moreover have "status r = 402 \<longrightarrow> error_response err = insufficient_credits_response"
    using assms(6) by (simp add: error_response_def)
  moreover have "status r = 429 \<longrightarrow> error_response err = rate_limit_response"
    using assms(6) by (simp add: error_response_def)
  moreover have "code billing_limit_response = 402"
    "body_field billing_limit_response ''message'' =
            Some (JStr ''AI image generation service needs account top-up. Please try again later.'')"
    "code (invalid_request_response m) = 400"
    "code insufficient_credits_response = 402"
    "body_field insufficient_credits_response ''error'' = Some (JStr ''Insufficient credits'')"
    "body_field insufficient_credits_response ''message'' =
            Some (JStr ''AI service needs credits to generate images. Please try again later.'')"
    "code rate_limit_response = 429"
    "body_field rate_limit_response ''error'' = Some (JStr ''Rate limit exceeded'')"
    "body_field rate_limit_response ''message'' =
            Some (JStr ''Too many requests. Please try again later'')"
    by (simp_all add: billing_limit_response_def invalid_request_response_def
        insufficient_credits_response_def rate_limit_response_def body_field_def
        error_envelope_def)
  ultimately show ?thesis
    using resp by simp
qed

theorem provider_status_mapping_witness:
  "fst (post_generate_image env_openai
          (stub_failing (upstream_error 400 (Some ''billing_hard_limit_reached'')))
          UploadOk one_photo world1) = Some billing_limit_response
   \<and> code billing_limit_response = 402
   \<and> fst (post_generate_image env_openai (stub_failing (upstream_error 429 None))
          UploadOk one_photo world1) = Some rate_limit_response
   \<and> code rate_limit_response = 429"
  using provider_status_mapping [of one_photo "[photo1]" env_openai
      "stub_failing (upstream_error 400 (Some ''billing_hard_limit_reached''))" world1
      "upstream_error 400 (Some ''billing_hard_limit_reached'')"
      "\<lparr>status = 400, data_error_message = Some ''upstream says no'',
        data_error_code = Some ''billing_hard_limit_reached''\<rparr>"]
    provider_status_mapping [of one_photo "[photo1]" env_openai
      "stub_failing (upstream_error 429 None)" world1
      "upstream_error 429 None"
      "\<lparr>status = 429, data_error_message = Some ''upstream says no'',
        data_error_code = None\<rparr>"]
  by (simp add: one_photo_def env_openai_def truthy_str_def js_of_def call_provider_def
      or_default_def callOpenAIAPI_def stub_failing_def upstream_error_def)

subsection \<open>C3: the cleanup invariant\<close>

text \<open>
  C3. After any response no temporary file of the request remains. The controller
  cleans up on the demo path, on the success path and in its \<^verbatim>\<open>catch\<close> block
  (lemma \<open>cleanup_on_other_paths\<close>), but the early return for a missing key does not: with one accepted file and no
  \<^verbatim>\<open>OPENAI_API_KEY\<close> the response is the configuration error, the file is still
  in the uploads directory, and no cleanup line has been logged.
\<close>

theorem configuration_error_leaves_upload:
  "fst (post_generate_image env_demo_no_key stub_ok UploadOk one_photo world1)
      = Some api_configuration_response
   \<and> path photo1 \<in> present (snd (post_generate_image env_demo_no_key stub_ok UploadOk one_photo world1))
   \<and> console (snd (post_generate_image env_demo_no_key stub_ok UploadOk one_photo world1)) = []"
  by (simp add: post_generate_image_def generateBabyImage_def one_photo_def env_demo_no_key_def
      env_demo_def env_openai_def truthy_str_def js_of_def world1_def)

subsection \<open>C4: the uploads are not sent to a provider\<close>

text \<open>
  C4. Neither provider call depends on the uploaded files, and two requests with the
  same transformation type and the same number of files send exactly the same calls
  to the provider, whatever the files contain.
\<close>

theorem provider_requests_ignore_files:
  assumes "transformationType req = transformationType req'"
    and "map_option length (files req) = map_option length (files req')"
    and "outbound w = outbound w'"
  shows "callOpenAIAPI e stub prompt fs w = callOpenAIAPI e stub prompt fs' w
       \<and> callReplicateAPI e stub prompt fs w = callReplicateAPI e stub prompt fs' w
       \<and> outbound (snd (post_generate_image e stub UploadOk req w))
           = outbound (snd (post_generate_image e stub UploadOk req' w'))"
proof -
  have direct: "callOpenAIAPI e stub prompt fs w = callOpenAIAPI e stub prompt fs' w"
    "callReplicateAPI e stub prompt fs w = callReplicateAPI e stub prompt fs' w"
    by (simp_all add: callOpenAIAPI_def callReplicateAPI_def)
  have "outbound (snd (post_generate_image e stub UploadOk req w))
           = outbound (snd (post_generate_image e stub UploadOk req' w'))"
  proof (cases "files req")
    case None
    then have "files req' = None" using assms(2) by simp
    with None show ?thesis
      using assms(3) by (simp add: post_generate_image_def generateBabyImage_def)
  next
    case (Some xs)
    then obtain ys where ys: "files req' = Some ys" "length xs = length ys"
      using assms(2) by (cases "files req'") auto
    show ?thesis
    proof (cases "xs = [] \<or> \<not> truthy_str (OPENAI_API_KEY e) \<or> DEMO_MODE e = Some ''true''")
      case True
      then show ?thesis
        using Some ys assms(3)
        by (auto simp: post_generate_image_def generateBabyImage_def cleanup_outbound)
    next
      case False
      then have x: "xs \<noteq> []" "truthy_str (OPENAI_API_KEY e)" "DEMO_MODE e \<noteq> Some ''true''"
        by simp_all
      then have y: "ys \<noteq> []" using ys by auto
      show ?thesis
        using generateBabyImage_outbound [OF Some x, of stub w]
          generateBabyImage_outbound [OF ys(1) y x(2,3), of stub w']
          call_provider_world [OF assms(3), of e stub "or_default (AI_PROVIDER e) ''openai''"
            "generatePrompt (or_default (transformationType req) ''baby_blur'') (length xs)" xs ys]
          assms(1) ys(2)
        by simp
    qed
  qed
  with direct show ?thesis by simp
qed

theorem provider_requests_ignore_files_witness:
  "outbound (snd (post_generate_image env_openai stub_ok UploadOk one_photo world1))
     = outbound (snd (post_generate_image env_openai stub_ok UploadOk
          \<lparr>files = Some [other_photo], transformationType = None\<rparr> world1))
   \<and> outbound (snd (post_generate_image env_openai stub_ok UploadOk one_photo world1))
     = [AxiosPost ''https://api.openai.com/v1/images/generations''
          (openai_request_body (JStr baby_blur_prompt)) (openai_headers env_openai) 60000]"
proof -
  have "outbound (snd (post_generate_image env_openai stub_ok UploadOk one_photo world1))
     = [AxiosPost ''https://api.openai.com/v1/images/generations''
          (openai_request_body (JStr baby_blur_prompt)) (openai_headers env_openai) 60000]"
    by (simp add: post_generate_image_def generateBabyImage_def one_photo_def env_openai_def
        truthy_str_def js_of_def or_default_def call_provider_def callOpenAIAPI_def stub_ok_def
        image_url_of_def Let_def cleanup_file_outbound world1_def generatePrompt_baby_blur)
  then show ?thesis
    using provider_requests_ignore_files [of one_photo
        "\<lparr>files = Some [other_photo], transformationType = None\<rparr>" world1 world1
        env_openai stub_ok JUndefined "[]" "[]"]
    by (simp add: one_photo_def)
qed

subsection \<open>C5: unknown transformation types\<close>

text \<open>
  C5. Every transformation type outside the nine identifiers yields the avatar
  prompt, and the request still succeeds. The string \<^verbatim>\<open>constructor\<close> is not one of
  the nine, yet the lookup \<^verbatim>\<open>prompts['constructor']\<close> finds the inherited, truthy
  function \<^verbatim>\<open>Object\<close>, and that function is returned in place of the avatar prompt;
  the request is answered with status 200, and what was sent to the provider as the
  prompt is that function.
\<close>

theorem inherited_property_is_not_avatar_prompt:
  "''constructor'' \<notin> set transformation_ids
   \<and> generatePrompt ''constructor'' 1 = JFun ''Object''
   \<and> generatePrompt ''constructor'' 1 \<noteq> JStr avatar_prompt
   \<and> map_option code (fst (post_generate_image env_openai stub_ok UploadOk
        \<lparr>files = Some [photo1], transformationType = Some ''constructor''\<rparr> world1)) = Some 200
   \<and> outbound (snd (post_generate_image env_openai stub_ok UploadOk
        \<lparr>files = Some [photo1], transformationType = Some ''constructor''\<rparr> world1))
      = [AxiosPost ''https://api.openai.com/v1/images/generations''
           (openai_request_body (JFun ''Object'')) (openai_headers env_openai) 60000]"
proof -
  have p: "generatePrompt ''constructor'' n = JFun ''Object''" for n
    by (simp add: generatePrompt_def get_property_def prompts_def object_prototype_def)
  have "''constructor'' \<notin> set transformation_ids"
    by (simp add: transformation_ids_def)
  moreover have "map_option code (fst (post_generate_image env_openai stub_ok UploadOk
        \<lparr>files = Some [photo1], transformationType = Some ''constructor''\<rparr> world1)) = Some 200"
    by (simp add: post_generate_image_def generateBabyImage_def env_openai_def truthy_str_def
        js_of_def or_default_def call_provider_def callOpenAIAPI_def stub_ok_def
        image_url_of_def Let_def p success_response_def)
  moreover have "outbound (snd (post_generate_image env_openai stub_ok UploadOk
        \<lparr>files = Some [photo1], transformationType = Some ''constructor''\<rparr> world1))
      = [AxiosPost ''https://api.openai.com/v1/images/generations''
           (openai_request_body (JFun ''Object'')) (openai_headers env_openai) 60000]"
    by (simp add: post_generate_image_def generateBabyImage_def env_openai_def truthy_str_def
        js_of_def or_default_def call_provider_def callOpenAIAPI_def stub_ok_def
        image_url_of_def Let_def p cleanup_file_outbound world1_def)
  ultimately show ?thesis
    using p [of 1] by simp
qed

subsection \<open>C6: no files\<close>

text \<open>
  C6. A request that reaches the controller without files (\<^verbatim>\<open>req.files\<close> unset or
  empty) is answered with status 400 and the error \<^verbatim>\<open>No images uploaded\<close>, and
  the world is unchanged: in particular no call to a provider has been made.
\<close>

theorem no_files_rejected:
  assumes "files req = None \<or> files req = Some []"
  shows "post_generate_image e stub UploadOk req w = (Some no_images_response, w)
       \<and> code no_images_response = 400
       \<and> body_field no_images_response ''error'' = Some (JStr ''No images uploaded'')"
  using assms
  by (auto simp: post_generate_image_def generateBabyImage_def no_images_response_def
      body_field_def error_envelope_def)

theorem no_files_rejected_witness:
  "post_generate_image env_openai stub_ok UploadOk
      \<lparr>files = Some [], transformationType = Some ''avatar''\<rparr> world1
    = (Some no_images_response, world1)
   \<and> outbound world1 = []"
  using no_files_rejected [of "\<lparr>files = Some [], transformationType = Some ''avatar''\<rparr>"
      env_openai stub_ok world1]
  by (simp add: world1_def)

subsection \<open>C7: the generic failure, and what a response reveals\<close>

text \<open>
  C7, as stated, fails: the global error handler puts the message of the exception
  into the body of its response.
\<close>

theorem global_handler_exposes_message_counterexample:
  "body_field (global_error_handler
       (new_Error ''ENOENT: no such file or directory, open /srv/app/uploads/x.jpg''))
     ''message''
   = Some (JStr ''ENOENT: no such file or directory, open /srv/app/uploads/x.jpg'')"
  by (simp add: global_error_handler_def new_Error_def body_field_def error_envelope_def js_of_def)

text \<open>
  C7, amended. For every error that reaches the controller's \<^verbatim>\<open>catch\<close> block and
  does not carry upstream status 400, 402 or 429, the response is status 500 with the
  fixed generation-failed envelope. No response of \<^verbatim>\<open>POST /generate-image\<close> and no
  response of the global error handler depends on the stack trace of an exception;
  the global error handler does include the exception's message.
\<close>

theorem generic_failure_and_no_stack_trace:
  assumes "map_option status (err_response err) \<notin> {Some 400, Some 402, Some 429}"
  shows "fst (handle_error err req w) = Some generation_failed_response
       \<and> code generation_failed_response = 500
       \<and> body_field generation_failed_response ''error'' = Some (JStr ''Image generation failed'')
       \<and> body_field generation_failed_response ''message'' =
            Some (JStr ''Unable to generate baby selfie. Please try again'')
       \<and> post_generate_image e (strip_stub stub) (strip_upload upl) req' w'
            = post_generate_image e stub upl req' w'
       \<and> global_error_handler (strip_stack err') = global_error_handler err'
       \<and> body_field (global_error_handler err') ''message'' = Some (js_of (err_message err'))"
proof -
  have "error_response err = generation_failed_response"
    using assms by (auto simp: error_response_def split: option.splits)
  then have "fst (handle_error err req w) = Some generation_failed_response"
    by (simp add: handle_error_response)
  moreover have "code generation_failed_response = 500"
    "body_field generation_failed_response ''error'' = Some (JStr ''Image generation failed'')"
    "body_field generation_failed_response ''message'' =
            Some (JStr ''Unable to generate baby selfie. Please try again'')"
    by (simp_all add: generation_failed_response_def body_field_def error_envelope_def)
  moreover have "global_error_handler (strip_stack err') = global_error_handler err'"
    "body_field (global_error_handler err') ''message'' = Some (js_of (err_message err'))"
    by (simp_all add: global_error_handler_def strip_stack_def body_field_def error_envelope_def)
  ultimately show ?thesis
    by (simp add: post_generate_image_strip)
qed

theorem generic_failure_and_no_stack_trace_witness:
  "fst (handle_error (upstream_error 503 None) one_photo world1) = Some generation_failed_response
   \<and> fst (handle_error type_error one_photo world1) = Some generation_failed_response
   \<and> code generation_failed_response = 500"
  using generic_failure_and_no_stack_trace [of "upstream_error 503 None" one_photo world1
      env_openai stub_ok UploadOk one_photo world1 type_error]
    generic_failure_and_no_stack_trace [of type_error one_photo world1
      env_openai stub_ok UploadOk one_photo world1 type_error]
  by (simp add: upstream_error_def type_error_def)

subsection \<open>C8: upload limits\<close>




subsection \<open>C9: the stream defect of the asynchronous provider\<close>

text \<open>
  C9. With a configured token, an error raised inside the \<^verbatim>\<open>try\<close> block of the
  asynchronous provider call whose message contains \<^verbatim>\<open>ReadableStream\<close> is replaced
  by the fixed placeholder URL, and the request then completes with status 200 and that
  URL; every other error of the block is rethrown unchanged.
\<close>

theorem stream_defect_fallback:
  assumes "REPLICATE_API_TOKEN e = Some token" and "token \<noteq> []"
    and "token \<noteq> ''your_replicate_token_here''"
    and "fst (replicate_try token stub prompt w) = Rejected err"
  shows "((\<exists>a b. err_message err = Some (a @ ''ReadableStream'' @ b)) \<longrightarrow>
            fst (callReplicateAPI e stub prompt fs w) = Fulfilled (ReplicateUrl replicate_placeholder))
       \<and> ((\<nexists>a b. err_message err = Some (a @ ''ReadableStream'' @ b)) \<longrightarrow>
            fst (callReplicateAPI e stub prompt fs w) = Rejected err)
       \<and> ((\<exists>a b. err_message err = Some (a @ ''ReadableStream'' @ b))
            \<and> files req = Some fs \<and> fs \<noteq> [] \<and> truthy_str (OPENAI_API_KEY e)
            \<and> DEMO_MODE e \<noteq> Some ''true'' \<and> AI_PROVIDER e = Some ''replicate''
            \<and> prompt = generatePrompt (or_default (transformationType req) ''baby_blur'') (length fs)
          \<longrightarrow> map_option code (fst (post_generate_image e stub UploadOk req w)) = Some 200
            \<and> map_option (\<lambda>r. data_field r ''imageUrl'') (fst (post_generate_image e stub UploadOk req w))
                = Some (Some (JStr replicate_placeholder)))"
proof -
  note caught = callReplicateAPI_caught [OF assms, of fs]
  have a: "(\<exists>a b. err_message err = Some (a @ ''ReadableStream'' @ b)) \<longrightarrow>
            fst (callReplicateAPI e stub prompt fs w) = Fulfilled (ReplicateUrl replicate_placeholder)"
    using caught by (simp add: has_stream_marker_iff)
  have b: "(\<nexists>a b. err_message err = Some (a @ ''ReadableStream'' @ b)) \<longrightarrow>
            fst (callReplicateAPI e stub prompt fs w) = Rejected err"
    using caught by (simp add: has_stream_marker_iff)
  have c: "map_option code (fst (post_generate_image e stub UploadOk req w)) = Some 200
            \<and> map_option (\<lambda>r. data_field r ''imageUrl'') (fst (post_generate_image e stub UploadOk req w))
                = Some (Some (JStr replicate_placeholder))"
    if m: "\<exists>a b. err_message err = Some (a @ ''ReadableStream'' @ b)"
      and f: "files req = Some fs" "fs \<noteq> []" "truthy_str (OPENAI_API_KEY e)"
        "DEMO_MODE e \<noteq> Some ''true''"
      and p: "AI_PROVIDER e = Some ''replicate''"
        "prompt = generatePrompt (or_default (transformationType req) ''baby_blur'') (length fs)"
  proof -
    have "call_provider e stub (or_default (AI_PROVIDER e) ''openai'')
            (generatePrompt (or_default (transformationType req) ''baby_blur'') (length fs)) fs w
          = (Fulfilled (ReplicateUrl replicate_placeholder), snd (replicate_try token stub prompt w))"
      using caught m p by (simp add: call_provider_def or_default_def has_stream_marker_iff)
    then show ?thesis
      using controller_entered [OF f, of stub w]
      by (simp add: image_url_of_def success_response_def data_field_def)
  qed
  show ?thesis using a b c by blast
qed

theorem stream_defect_fallback_witness:
  "fst (callReplicateAPI env_replicate (stub_failing stream_error) (JStr avatar_prompt) [photo1] world1)
      = Fulfilled (ReplicateUrl replicate_placeholder)
   \<and> map_option code (fst (post_generate_image env_replicate (stub_failing stream_error) UploadOk
        \<lparr>files = Some [photo1], transformationType = Some ''avatar''\<rparr> world1)) = Some 200
   \<and> fst (callReplicateAPI env_replicate (stub_failing (upstream_error 429 None))
        (JStr avatar_prompt) [photo1] world1) = Rejected (upstream_error 429 None)"
proof -
  let ?req = "\<lparr>files = Some [photo1], transformationType = Some ''avatar''\<rparr>"
  have tok: "REPLICATE_API_TOKEN env_replicate = Some ''r8_test''"
    "''r8_test'' \<noteq> []" "''r8_test'' \<noteq> ''your_replicate_token_here''"
    by (simp_all add: env_replicate_def)
  have rej: "fst (replicate_try ''r8_test'' (stub_failing err) (JStr avatar_prompt) world1)
               = Rejected err" for err
    by (simp add: replicate_try_def stub_failing_def)
  have m: "\<exists>a b. err_message stream_error = Some (a @ ''ReadableStream'' @ b)"
    using has_stream_marker_iff [of stream_error]
    by (simp add: has_stream_marker_def stream_error_def)
  have n: "\<nexists>a b. err_message (upstream_error 429 None) = Some (a @ ''ReadableStream'' @ b)"
    using has_stream_marker_iff [of "upstream_error 429 None"]
    by (simp add: has_stream_marker_def upstream_error_def)
  have side: "files ?req = Some [photo1]" "[photo1] \<noteq> []"
    "truthy_str (OPENAI_API_KEY env_replicate)" "DEMO_MODE env_replicate \<noteq> Some ''true''"
    "AI_PROVIDER env_replicate = Some ''replicate''"
    "JStr avatar_prompt =
       generatePrompt (or_default (transformationType ?req) ''baby_blur'') (length [photo1])"
    by (simp_all add: env_replicate_def env_openai_def truthy_str_def js_of_def or_default_def
        generatePrompt_def get_property_def prompts_def)
  note hit = stream_defect_fallback [OF tok rej [of stream_error], of "[photo1]" ?req]
  note miss = stream_defect_fallback [OF tok rej [of "upstream_error 429 None"], of "[photo1]" ?req]
  have "fst (callReplicateAPI env_replicate (stub_failing stream_error) (JStr avatar_prompt)
          [photo1] world1) = Fulfilled (ReplicateUrl replicate_placeholder)"
    using hit m by blast
  moreover have "map_option code (fst (post_generate_image env_replicate
          (stub_failing stream_error) UploadOk ?req world1)) = Some 200"
    using hit m side by blast
  moreover have "fst (callReplicateAPI env_replicate (stub_failing (upstream_error 429 None))
        (JStr avatar_prompt) [photo1] world1) = Rejected (upstream_error 429 None)"
    using miss n by blast
  ultimately show ?thesis by blast
qed

subsection \<open>C10: the key of the synchronous provider is required on every path\<close>

text \<open>
  C10. With at least one accepted file and \<^verbatim>\<open>OPENAI_API_KEY\<close> unset (or empty), the
  response is status 500 with the error \<^verbatim>\<open>API configuration error\<close>, whatever the
  provider selector and the demo flag are.
\<close>

theorem api_key_required:
  assumes "files req = Some fs" and "fs \<noteq> []"
    and "OPENAI_API_KEY e = None \<or> OPENAI_API_KEY e = Some []"
  shows "post_generate_image e stub UploadOk req w = (Some api_configuration_response, w)
       \<and> code api_configuration_response = 500
       \<and> body_field api_configuration_response ''error'' = Some (JStr ''API configuration error'')"
  using assms
  by (auto simp: post_generate_image_def generateBabyImage_def api_configuration_response_def
      body_field_def error_envelope_def truthy_str_def js_of_def)

theorem api_key_required_witness:
  "AI_PROVIDER env_demo_no_key = Some ''replicate'' \<and> DEMO_MODE env_demo_no_key = Some ''true''
   \<and> post_generate_image env_demo_no_key stub_ok UploadOk two_photos world1
       = (Some api_configuration_response, world1)"
  using api_key_required [of two_photos "[photo1, photo2]" env_demo_no_key stub_ok world1]
  by (simp add: two_photos_def env_demo_no_key_def env_demo_def env_openai_def)

end
